theory Spec2Isabelle
  imports Main
begin

section \<open>Exceptions, program state and sequencing\<close>

text \<open>
  The script is a pipeline of imaging-library calls. Every call that can raise is a
  value of \<open>exc + 'a\<close>; a statement sequence is a function from the program state to
  an outcome and the state reached, so that the effects made before an exception
  (objects allocated, lines printed, files written) are still there when it is caught.
\<close>

datatype exc = ValueError string | OSError string | TypeError string

text \<open>
  The lines the script prints. Each constructor stands for one format string of
  \<open>main.py\<close>: the icon diagnostic of line 56 (path and exception), the success line
  of line 137 (output path), the per-file failure line of line 139 (exception), the
  missing-input line of line 165 (input path) and the final line 203.
\<close>

datatype message =
    IconLoadFailed string exc
  | ImageSaved string
  | ProcessFailed exc
  | InputMissing string
  | AllDone

type_synonym colour = "int \<times> int \<times> int"

datatype font = Font string int

text \<open>An image: its size and its pixel buffer, read at column \<open>x\<close> and row \<open>y\<close>.\<close>

record 'px image =
  width :: int
  height :: int
  pix :: "int \<Rightarrow> int \<Rightarrow> 'px"

type_synonym ref = nat

text \<open>
  The drawing calls made on an image object, in the order they are made:
  \<open>paste(icon, (x, y), icon)\<close> and \<open>draw.text((x, y), text, font, fill)\<close>.
\<close>

datatype call =
    PasteCall ref "int \<times> int"
  | TextCall ref "int \<times> int" string font colour

text \<open>
  The program state: the image objects (a reference is an index into \<open>objs\<close>, and
  a new object is appended), the lines printed so far, the drawing calls made so far,
  and the world outside the process (the file system), of which nothing is assumed.
\<close>

record ('px, 'w) state =
  objs :: "'px image list"
  stdout :: "message list"
  calls :: "call list"
  world :: 'w

type_synonym ('s, 'a) prog = "'s \<Rightarrow> (exc + 'a) \<times> 's"

definition returnE :: "'a \<Rightarrow> ('s, 'a) prog" where
  "returnE v s = (Inr v, s)"

definition liftE :: "exc + 'a \<Rightarrow> ('s, 'a) prog" where
  "liftE r s = (r, s)"

definition bindE :: "('s, 'a) prog \<Rightarrow> ('a \<Rightarrow> ('s, 'b) prog) \<Rightarrow> ('s, 'b) prog" where
  "bindE m f s = (case m s of (Inl e, s') \<Rightarrow> (Inl e, s') | (Inr v, s') \<Rightarrow> f v s')"

text \<open>\<open>try: m except Exception as e: h e\<close>\<close>

definition try_except :: "('s, 'a) prog \<Rightarrow> (exc \<Rightarrow> ('s, 'a) prog) \<Rightarrow> ('s, 'a) prog" where
  "try_except m h s = (case m s of (Inl e, s') \<Rightarrow> h e s' | (Inr v, s') \<Rightarrow> (Inr v, s'))"

definition print :: "message \<Rightarrow> (('px, 'w) state, unit) prog" where
  "print m s = (Inr (), s\<lparr>stdout := stdout s @ [m]\<rparr>)"

section \<open>The imaging library\<close>

text \<open>
  What the library computes from pixels, fonts and files is a parameter of the model:
  the Gaussian filter, the decoder, the resampler, the alpha blend of one pixel, the
  font rasteriser and the file system. Each may raise where the library may raise.
\<close>

record ('px, 'w) env =
  gaussian_blur :: "int \<Rightarrow> 'px image \<Rightarrow> exc + 'px image"
  open_file :: "string \<Rightarrow> 'w \<Rightarrow> exc + 'px image"
  convert :: "string \<Rightarrow> 'px image \<Rightarrow> exc + 'px image"
  resize :: "int \<times> int \<Rightarrow> 'px image \<Rightarrow> exc + 'px image"
  alpha_blend :: "'px \<Rightarrow> 'px \<Rightarrow> 'px"
  truetype :: "string \<Rightarrow> int \<Rightarrow> 'w \<Rightarrow> exc + font"
  textbbox :: "font \<Rightarrow> string \<Rightarrow> int \<times> int \<Rightarrow> exc + (int \<times> int \<times> int \<times> int)"
  getmetrics :: "font \<Rightarrow> int \<times> int"
  render_text :: "font \<Rightarrow> string \<Rightarrow> colour \<Rightarrow> int \<times> int \<Rightarrow> 'px image \<Rightarrow> exc + 'px image"
  save_file :: "string \<Rightarrow> 'px image \<Rightarrow> 'w \<Rightarrow> (exc + unit) \<times> 'w"
  path_exists :: "string \<Rightarrow> 'w \<Rightarrow> bool"
  isdir :: "string \<Rightarrow> 'w \<Rightarrow> bool"
  listdir :: "string \<Rightarrow> 'w \<Rightarrow> exc + string list"
  path_join :: "string \<Rightarrow> string \<Rightarrow> string"
  splitext :: "string \<Rightarrow> string \<times> string"

definition image_size :: "'px image \<Rightarrow> int \<times> int" where
  "image_size im = (width im, height im)"

definition in_bounds :: "'px image \<Rightarrow> int \<Rightarrow> int \<Rightarrow> bool" where
  "in_bounds im x y = (0 \<le> x \<and> x < width im \<and> 0 \<le> y \<and> y < height im)"

text \<open>
  \<open>Image.crop(box)\<close>: raises when the box is inverted, and reads zero outside the
  source.
\<close>

definition crop :: "'px::zero image \<Rightarrow> int \<times> int \<times> int \<times> int \<Rightarrow> exc + 'px image" where
  "crop im box =
     (case box of (l, u, r, lo) \<Rightarrow>
        if r < l then Inl (ValueError ''Coordinate right is less than left'')
        else if lo < u then Inl (ValueError ''Coordinate lower is less than upper'')
        else Inr \<lparr>width = r - l, height = lo - u,
                  pix = (\<lambda>x y. if in_bounds im (x + l) (y + u)
                                 then pix im (x + l) (y + u) else 0)\<rparr>)"

text \<open>
  \<open>Image.paste(im, box)\<close> with a 4-tuple: the pasted image must have the size of the
  region; the pixels of the region are overwritten, the others are kept.
\<close>

definition paste_box ::
  "'px image \<Rightarrow> 'px image \<Rightarrow> int \<times> int \<times> int \<times> int \<Rightarrow> exc + 'px image" where
  "paste_box dest src box =
     (case box of (l, u, r, lo) \<Rightarrow>
        if width src \<noteq> r - l \<or> height src \<noteq> lo - u
        then Inl (ValueError ''images do not match'')
        else Inr (dest\<lparr>pix := (\<lambda>x y. if l \<le> x \<and> x < r \<and> u \<le> y \<and> y < lo
                                        then pix src (x - l) (y - u)
                                        else pix dest x y)\<rparr>))"

text \<open>
  \<open>Image.paste(im, (x, y), mask)\<close> with the image as its own mask: inside the
  rectangle that the image covers, each pixel is the blend of the old pixel and the
  pasted one.
\<close>

definition paste_mask ::
  "('px, 'w) env \<Rightarrow> 'px image \<Rightarrow> 'px image \<Rightarrow> int \<times> int \<Rightarrow> 'px image" where
  "paste_mask env dest src pos =
     (case pos of (x0, y0) \<Rightarrow>
        dest\<lparr>pix := (\<lambda>x y. if x0 \<le> x \<and> x < x0 + width src \<and> y0 \<le> y \<and> y < y0 + height src
                             then alpha_blend env (pix dest x y) (pix src (x - x0) (y - y0))
                             else pix dest x y)\<rparr>)"

subsection \<open>Operations on image objects\<close>

definition get_image :: "ref \<Rightarrow> (('px, 'w) state, 'px image) prog" where
  "get_image r s = (Inr (objs s ! r), s)"

text \<open>\<open>image.copy()\<close>: a new object with the same size and pixels.\<close>

definition copy :: "ref \<Rightarrow> (('px, 'w) state, ref) prog" where
  "copy r s = (Inr (length (objs s)), s\<lparr>objs := objs s @ [objs s ! r]\<rparr>)"

definition new_image :: "'px image \<Rightarrow> (('px, 'w) state, ref) prog" where
  "new_image im s = (Inr (length (objs s)), s\<lparr>objs := objs s @ [im]\<rparr>)"

definition paste :: "ref \<Rightarrow> 'px image \<Rightarrow> int \<times> int \<times> int \<times> int \<Rightarrow> (('px, 'w) state, unit) prog" where
  "paste r src box s =
     (case paste_box (objs s ! r) src box of
        Inl e \<Rightarrow> (Inl e, s)
      | Inr im \<Rightarrow> (Inr (), s\<lparr>objs := (objs s)[r := im]\<rparr>))"

definition paste_icon ::
  "('px, 'w) env \<Rightarrow> ref \<Rightarrow> 'px image \<Rightarrow> int \<times> int \<Rightarrow> (('px, 'w) state, unit) prog" where
  "paste_icon env r icon pos s =
     (Inr (), s\<lparr>objs := (objs s)[r := paste_mask env (objs s ! r) icon pos],
                calls := calls s @ [PasteCall r pos]\<rparr>)"

definition draw_text ::
  "('px, 'w) env \<Rightarrow> ref \<Rightarrow> int \<times> int \<Rightarrow> string \<Rightarrow> font \<Rightarrow> colour \<Rightarrow> (('px, 'w) state, unit) prog" where
  "draw_text env r pos text f fill s =
     (let s1 = s\<lparr>calls := calls s @ [TextCall r pos text f fill]\<rparr>
      in case render_text env f text fill pos (objs s1 ! r) of
           Inl e \<Rightarrow> (Inl e, s1)
         | Inr im \<Rightarrow> (Inr (), s1\<lparr>objs := (objs s1)[r := im]\<rparr>))"

definition open_image :: "('px, 'w) env \<Rightarrow> string \<Rightarrow> (('px, 'w) state, ref) prog" where
  "open_image env path s =
     (case open_file env path (world s) of
        Inl e \<Rightarrow> (Inl e, s)
      | Inr im \<Rightarrow> new_image im s)"

definition load_font :: "('px, 'w) env \<Rightarrow> string \<Rightarrow> int \<Rightarrow> (('px, 'w) state, font) prog" where
  "load_font env path sz s = (truetype env path sz (world s), s)"

definition save :: "('px, 'w) env \<Rightarrow> ref \<Rightarrow> string \<Rightarrow> (('px, 'w) state, unit) prog" where
  "save env r path s =
     (case save_file env path (objs s ! r) (world s) of
        (res, w) \<Rightarrow> (res, s\<lparr>world := w\<rparr>))"

section \<open>The bottom-blur stage\<close>

text \<open>\<open>apply_bottom_blur(image, blur_radius, blur_height)\<close>, lines 6 to 27.\<close>

definition apply_bottom_blur ::
  "('px::zero, 'w) env \<Rightarrow> ref \<Rightarrow> int \<Rightarrow> int \<Rightarrow> (('px, 'w) state, ref) prog" where
  "apply_bottom_blur env img blur_radius blur_height0 =
     bindE (get_image img) (\<lambda>im.
       let (width, height) = image_size im;
           blur_height = (if blur_height0 > height then height else blur_height0);
           bottom_area = (0, height - blur_height, width, height)
       in bindE (copy img) (\<lambda>result.
          bindE (liftE (crop im bottom_area)) (\<lambda>bottom_part.
          bindE (liftE (gaussian_blur env blur_radius bottom_part)) (\<lambda>blurred_bottom.
          bindE (paste result blurred_bottom bottom_area) (\<lambda>_.
          returnE result)))))"

section \<open>The icon-overlay stage\<close>

text \<open>
  Lines 45 to 47: the icon is opened, converted to RGBA and resized to a square of
  side \<open>icon_size\<close>. Each of the three calls may raise.
\<close>

definition load_icon :: "('px, 'w) env \<Rightarrow> int \<Rightarrow> string \<Rightarrow> 'w \<Rightarrow> exc + 'px image" where
  "load_icon env icon_size icon_path w =
     (case open_file env icon_path w of
        Inl e \<Rightarrow> Inl e
      | Inr opened \<Rightarrow>
          (case convert env ''RGBA'' opened of
             Inl e \<Rightarrow> Inl e
           | Inr converted \<Rightarrow> resize env (icon_size, icon_size) converted))"

text \<open>
  The body of the loop of lines 43 to 56 for the icon of index \<open>i\<close>: load the icon,
  compute its position, paste it; any exception is caught and reported.
\<close>

definition place_icon ::
  "('px, 'w) env \<Rightarrow> ref \<Rightarrow> int \<Rightarrow> int \<Rightarrow> int \<Rightarrow> int \<Rightarrow> int \<Rightarrow> nat \<Rightarrow> string
     \<Rightarrow> (('px, 'w) state, unit) prog" where
  "place_icon env draw_image blur_start_y blur_height icon_size spacing start_x i icon_path =
     try_except
       (bindE (\<lambda>s. liftE (load_icon env icon_size icon_path (world s)) s) (\<lambda>icon.
          let icon_x = start_x + int i * (icon_size + spacing);
              icon_y = blur_start_y + (blur_height - icon_size) div 2
          in paste_icon env draw_image icon (icon_x, icon_y)))
       (\<lambda>e. print (IconLoadFailed icon_path e))"

fun icons_loop ::
  "('px, 'w) env \<Rightarrow> ref \<Rightarrow> int \<Rightarrow> int \<Rightarrow> int \<Rightarrow> int \<Rightarrow> int \<Rightarrow> (nat \<times> string) list
     \<Rightarrow> (('px, 'w) state, unit) prog" where
  "icons_loop env draw_image blur_start_y blur_height icon_size spacing start_x [] =
     returnE ()"
| "icons_loop env draw_image blur_start_y blur_height icon_size spacing start_x ((i, icon_path) # rest) =
     bindE (place_icon env draw_image blur_start_y blur_height icon_size spacing start_x i icon_path)
       (\<lambda>_. icons_loop env draw_image blur_start_y blur_height icon_size spacing start_x rest)"

text \<open>\<open>add_icons_to_blur(image, icon_paths, blur_height, icon_size, spacing)\<close>, lines 30 to 58.\<close>

definition add_icons_to_blur ::
  "('px, 'w) env \<Rightarrow> ref \<Rightarrow> string list \<Rightarrow> int \<Rightarrow> int \<Rightarrow> int \<Rightarrow> (('px, 'w) state, ref) prog" where
  "add_icons_to_blur env img icon_paths blur_height icon_size spacing =
     bindE (get_image img) (\<lambda>im.
       let (width, height) = image_size im;
           blur_start_y = height - blur_height
       in bindE (copy img) (\<lambda>draw_image.
            let total_icons_width =
                  int (length icon_paths) * icon_size + (int (length icon_paths) - 1) * spacing;
                start_x = (width - total_icons_width) div 2
            in bindE (icons_loop env draw_image blur_start_y blur_height icon_size spacing start_x
                        (enumerate 0 icon_paths))
                 (\<lambda>_. returnE draw_image)))"

section \<open>The time-overlay stage\<close>

text \<open>The loop of lines 95 to 98 over the list of offsets.\<close>

fun outline_loop ::
  "('px, 'w) env \<Rightarrow> ref \<Rightarrow> int \<Rightarrow> int \<Rightarrow> string \<Rightarrow> font \<Rightarrow> colour \<Rightarrow> (int \<times> int) list
     \<Rightarrow> (('px, 'w) state, unit) prog" where
  "outline_loop env img text_x text_y time_text f outline_color [] = returnE ()"
| "outline_loop env img text_x text_y time_text f outline_color (adj # rest) =
     bindE (draw_text env img (text_x + fst adj, text_y + snd adj) time_text f outline_color)
       (\<lambda>_. outline_loop env img text_x text_y time_text f outline_color rest)"

text \<open>
  \<open>add_time_to_blur(image, time_text, blur_height, font_size, padding, vertical_offset)\<close>,
  lines 61 to 101. The drawing object of line 71 draws on the image object itself.
\<close>

definition add_time_to_blur ::
  "('px, 'w) env \<Rightarrow> ref \<Rightarrow> string \<Rightarrow> int \<Rightarrow> int \<Rightarrow> int \<Rightarrow> int \<Rightarrow> (('px, 'w) state, ref) prog" where
  "add_time_to_blur env img time_text blur_height font_size padding vertical_offset =
     bindE (get_image img) (\<lambda>im.
       let (width, height) = image_size im;
           blur_start_y = height - blur_height;
           blur_center_y = blur_start_y + blur_height div 2
       in bindE (load_font env ''font/YaHei.ttf'' font_size) (\<lambda>f.
          bindE (liftE (textbbox env f time_text (0, 0))) (\<lambda>bbox.
            let (b0, b1, b2, b3) = bbox;
                text_width = b2 - b0;
                text_height = b3 - b1;
                (ascent, descent) = getmetrics env f;
                text_center_y = ascent - text_height div 2;
                text_x = width - text_width - padding;
                text_y = blur_center_y - text_center_y + vertical_offset;
                outline_color = (0, 0, 0)
            in bindE (outline_loop env img text_x text_y time_text f outline_color
                        [(-1, -1), (0, -1), (1, -1), (-1, 0), (1, 0), (-1, 1), (0, 1), (1, 1)])
                 (\<lambda>_.
               bindE (draw_text env img (text_x, text_y) time_text f (255, 255, 255)) (\<lambda>_.
               returnE img)))))"

section \<open>The orchestrator\<close>

text \<open>The choice of lines 122 to 128: the icon stage runs only on a non-empty list.\<close>

definition icon_step ::
  "('px, 'w) env \<Rightarrow> ref \<Rightarrow> string list \<Rightarrow> int \<Rightarrow> int \<Rightarrow> int \<Rightarrow> (('px, 'w) state, ref) prog" where
  "icon_step env blurred_img icon_paths blur_height icon_size spacing =
     (if icon_paths \<noteq> []
      then add_icons_to_blur env blurred_img icon_paths blur_height icon_size spacing
      else returnE blurred_img)"

text \<open>
  \<open>process_image\<close>, lines 104 to 139. The time stage is called with the defaults
  \<open>padding = 50\<close> and \<open>vertical_offset = 0\<close>.
\<close>

definition process_image ::
  "('px::zero, 'w) env \<Rightarrow> string \<Rightarrow> string \<Rightarrow> string list \<Rightarrow> string \<Rightarrow> int \<Rightarrow> int \<Rightarrow> int \<Rightarrow> int \<Rightarrow> int
     \<Rightarrow> (('px, 'w) state, unit) prog" where
  "process_image env input_path output_path icon_paths time_text
       blur_radius blur_height icon_size spacing font_size =
     try_except
       (bindE (open_image env input_path) (\<lambda>img.
        bindE (apply_bottom_blur env img blur_radius blur_height) (\<lambda>blurred_img.
        bindE (icon_step env blurred_img icon_paths blur_height icon_size spacing) (\<lambda>icon_img.
        bindE (add_time_to_blur env icon_img time_text blur_height font_size 50 0) (\<lambda>final_img.
        bindE (save env final_img output_path) (\<lambda>_.
        print (ImageSaved output_path)))))))
       (\<lambda>e. print (ProcessFailed e))"

text \<open>The parsed command line.\<close>

record args =
  arg_input :: string
  arg_output :: "string option"
  arg_radius :: int
  arg_height :: int
  arg_iconsize :: int
  arg_fontsize :: int
  arg_spacing :: int
  arg_time :: string
  arg_icons :: string

text \<open>The loop of lines 176 to 189 over the entries of the input directory.\<close>

fun process_dir ::
  "('px::zero, 'w) env \<Rightarrow> args \<Rightarrow> string \<Rightarrow> string list \<Rightarrow> string list
     \<Rightarrow> (('px, 'w) state, unit) prog" where
  "process_dir env a output icon_paths [] = returnE ()"
| "process_dir env a output icon_paths (filename # rest) =
     (let input_path = path_join env (arg_input a) filename;
          output_path = path_join env output filename
      in bindE (process_image env input_path output_path icon_paths (arg_time a)
                  (arg_radius a) (arg_height a) (arg_iconsize a) (arg_spacing a) (arg_fontsize a))
           (\<lambda>_. process_dir env a output icon_paths rest))"

text \<open>\<open>main\<close> after the parsing of the command line, lines 158 to 203.\<close>

definition main :: "('px::zero, 'w) env \<Rightarrow> args \<Rightarrow> (('px, 'w) state, unit) prog" where
  "main env a =
     (let derived = (case splitext env (arg_input a) of
                       (base_name, ext) \<Rightarrow> base_name @ ''_enhanced'' @ ext);
          output = (case arg_output a of
                      None \<Rightarrow> derived
                    | Some out \<Rightarrow> if out = [] then derived else out)
      in (\<lambda>s.
        if \<not> path_exists env (arg_input a) (world s)
        then print (InputMissing (arg_input a)) s
        else
          (let icon_dir = arg_icons a
           in bindE (\<lambda>s. liftE (listdir env icon_dir (world s)) s) (\<lambda>names.
                let icon_paths = map (path_join env icon_dir) names
                in bindE
                     (\<lambda>s. if isdir env (arg_input a) (world s)
                          then bindE (liftE (listdir env (arg_input a) (world s)))
                                 (process_dir env a output icon_paths) s
                          else process_image env (arg_input a) output icon_paths (arg_time a)
                                 (arg_radius a) (arg_height a) (arg_iconsize a) (arg_spacing a)
                                 (arg_fontsize a) s)
                     (\<lambda>_. print AllDone))) s))"

section \<open>Reading the effects of a run\<close>

text \<open>
  Whether the icon of an enumerated path loads, the diagnostic printed when it does
  not, and the paste call made when it does (the position of lines 50 and 51).
\<close>

definition icon_ok :: "('px, 'w) env \<Rightarrow> int \<Rightarrow> 'w \<Rightarrow> string \<Rightarrow> bool" where
  "icon_ok env icon_size w icon_path =
     (case load_icon env icon_size icon_path w of Inl e \<Rightarrow> False | Inr icon \<Rightarrow> True)"

definition icon_diag :: "('px, 'w) env \<Rightarrow> int \<Rightarrow> 'w \<Rightarrow> string \<Rightarrow> message list" where
  "icon_diag env icon_size w icon_path =
     (case load_icon env icon_size icon_path w of
        Inl e \<Rightarrow> [IconLoadFailed icon_path e]
      | Inr icon \<Rightarrow> [])"

definition icon_call :: "ref \<Rightarrow> int \<Rightarrow> int \<Rightarrow> int \<Rightarrow> int \<Rightarrow> int \<Rightarrow> nat \<Rightarrow> call" where
  "icon_call r blur_start_y blur_height icon_size spacing start_x i =
     PasteCall r (start_x + int i * (icon_size + spacing),
                  blur_start_y + (blur_height - icon_size) div 2)"




subsection \<open>A small concrete environment\<close>

text \<open>
  Pixels are numbers, the world is the list of the paths written so far. The two
  files named \<open>bad.png\<close> do not decode, the path \<open>missing\<close> does not exist, and only
  \<open>dir\<close> and \<open>icons\<close> are directories.
\<close>

definition test_image :: "nat image" where
  "test_image = \<lparr>width = 10, height = 6, pix = (\<lambda>x y. nat (x + 10 * y))\<rparr>"

definition test_env :: "(nat, string list) env" where
  "test_env =
     \<lparr>gaussian_blur = (\<lambda>r im. Inr (im\<lparr>pix := (\<lambda>x y. 7)\<rparr>)),
      open_file = (\<lambda>p w. if p = ''dir/bad.png'' \<or> p = ''icons/bad.png''
                          then Inl (OSError ''cannot identify image file'')
                          else Inr test_image),
      convert = (\<lambda>m im. Inr im),
      resize = (\<lambda>sz im. Inr \<lparr>width = fst sz, height = snd sz, pix = (\<lambda>x y. 9)\<rparr>),
      alpha_blend = (\<lambda>d c. c),
      truetype = (\<lambda>p sz w. Inr (Font p sz)),
      textbbox = (\<lambda>f t pos. Inr (fst pos + 1, snd pos + 2, fst pos + 3, snd pos + 4)),
      getmetrics = (\<lambda>f. (3, 1)),
      render_text = (\<lambda>f t fill pos im.
                       Inr (im\<lparr>pix := (\<lambda>x y. if x = fst pos \<and> y = snd pos
                                              then nat (fst fill) else pix im x y)\<rparr>)),
      save_file = (\<lambda>p im w. (Inr (), w @ [p])),
      path_exists = (\<lambda>p w. p \<noteq> ''missing''),
      isdir = (\<lambda>p w. p = ''dir''),
      listdir = (\<lambda>p w. if p = ''dir'' then Inr [''1.png'', ''bad.png'', ''3.png'']
                        else if p = ''icons'' then Inr [''a.png'', ''bad.png'', ''c.png'']
                        else Inl (OSError ''No such file or directory'')),
      path_join = (\<lambda>a b. a @ ''/'' @ b),
      splitext = (\<lambda>p. (p, []))\<rparr>"

definition test_state :: "(nat, string list) state" where
  "test_state = \<lparr>objs = [test_image], stdout = [], calls = [], world = []\<rparr>"

definition test_args :: args where
  "test_args =
     \<lparr>arg_input = ''dir'', arg_output = Some ''out'', arg_radius = 5, arg_height = 2,
      arg_iconsize = 2, arg_fontsize = 80, arg_spacing = 1, arg_time = ''13:14'',
      arg_icons = ''icons''\<rparr>"

section \<open>Properties\<close>

lemmas prog_defs = bindE_def returnE_def liftE_def try_except_def print_def get_image_def
  copy_def new_image_def paste_def paste_icon_def open_image_def load_font_def save_def

lemmas test_defs = test_env_def test_state_def test_image_def

subsection \<open>The bottom-blur stage\<close>


text \<open>
  C1. For every image and every band height not exceeding the image height, the image
  returned by the bottom-blur stage has the size of the input and is pixel-identical
  to it at every row \<open>y < height - blur_height\<close>, that is strictly above the band.
\<close>

theorem apply_bottom_blur_above_band:
  assumes "blur_height \<le> height (objs s ! img)"
    and "apply_bottom_blur env img blur_radius blur_height s = (Inr r, s')"
    and "y < height (objs s ! img) - blur_height"
  shows "width (objs s' ! r) = width (objs s ! img)
       \<and> height (objs s' ! r) = height (objs s ! img)
       \<and> pix (objs s' ! r) x y = pix (objs s ! img) x y"
  using assms
  by (auto simp: apply_bottom_blur_def prog_defs crop_def paste_box_def image_size_def
        Let_def nth_append
      split: sum.splits if_splits prod.splits)

theorem apply_bottom_blur_above_band_witness:
  "(2::int) \<le> height (objs test_state ! 0)
   \<and> fst (apply_bottom_blur test_env 0 5 2 test_state) = Inr 1
   \<and> (3::int) < height (objs test_state ! 0) - 2
   \<and> pix (objs (snd (apply_bottom_blur test_env 0 5 2 test_state)) ! 1) 1 3 = 31
   \<and> pix (objs (snd (apply_bottom_blur test_env 0 5 2 test_state)) ! 1) 1 4 = 7"
proof -
  let ?res = "apply_bottom_blur test_env 0 5 2 test_state"
  have h: "(2::int) \<le> height (objs test_state ! 0)"
    by (simp add: test_defs)
  have r: "fst ?res = Inr 1"
    by (simp add: apply_bottom_blur_def prog_defs crop_def paste_box_def image_size_def test_defs)
  then have e: "?res = (Inr 1, snd ?res)"
    by (simp add: prod_eq_iff)
  have y: "(3::int) < height (objs test_state ! 0) - 2"
    by (simp add: test_defs)
  have above: "pix (objs (snd ?res) ! 1) 1 3 = pix (objs test_state ! 0) 1 3"
    using apply_bottom_blur_above_band [OF h e y, of 1] by simp
  have inside: "pix (objs (snd ?res) ! 1) 1 4 = 7"
    by (simp add: apply_bottom_blur_def prog_defs crop_def paste_box_def image_size_def test_defs)
  show ?thesis
    using h r y above inside by (simp add: test_defs)
qed

subsection \<open>The icon-overlay stage\<close>

text \<open>
  One pass of the loop never raises: it makes the paste call of its slot when the icon
  loads and prints the diagnostic when it does not. It changes no object but the copy.
\<close>

lemma place_icon_effect:
  "\<exists>s'. place_icon env r by bh sz sp sx i p s = (Inr (), s')
     \<and> calls s' = calls s @ (if icon_ok env sz (world s) p then [icon_call r by bh sz sp sx i] else [])
     \<and> stdout s' = stdout s @ icon_diag env sz (world s) p
     \<and> world s' = world s
     \<and> length (objs s') = length (objs s)
     \<and> (\<forall>j. j \<noteq> r \<longrightarrow> objs s' ! j = objs s ! j)"
  by (auto simp: place_icon_def prog_defs icon_ok_def icon_diag_def icon_call_def Let_def
      split: sum.splits)

lemma icons_loop_effect:
  "\<exists>s'. icons_loop env r by bh sz sp sx ips s = (Inr (), s')
     \<and> calls s' = calls s @ map (\<lambda>ip. icon_call r by bh sz sp sx (fst ip))
                               (filter (\<lambda>ip. icon_ok env sz (world s) (snd ip)) ips)
     \<and> stdout s' = stdout s @ concat (map (\<lambda>ip. icon_diag env sz (world s) (snd ip)) ips)
     \<and> world s' = world s
     \<and> length (objs s') = length (objs s)
     \<and> (\<forall>j. j \<noteq> r \<longrightarrow> objs s' ! j = objs s ! j)"
proof (induction ips arbitrary: s)
  case Nil
  then show ?case by (simp add: returnE_def)
next
  case (Cons ip ips)
  obtain i p where ip: "ip = (i, p)" by (cases ip)
  obtain s1 where s1: "place_icon env r by bh sz sp sx i p s = (Inr (), s1)"
    "calls s1 = calls s @ (if icon_ok env sz (world s) p then [icon_call r by bh sz sp sx i] else [])"
    "stdout s1 = stdout s @ icon_diag env sz (world s) p"
    "world s1 = world s" "length (objs s1) = length (objs s)"
    "\<forall>j. j \<noteq> r \<longrightarrow> objs s1 ! j = objs s ! j"
    using place_icon_effect [of env r "by" bh sz sp sx i p s] by blast
  obtain s2 where s2: "icons_loop env r by bh sz sp sx ips s1 = (Inr (), s2)"
    "calls s2 = calls s1 @ map (\<lambda>ip. icon_call r by bh sz sp sx (fst ip))
                               (filter (\<lambda>ip. icon_ok env sz (world s1) (snd ip)) ips)"
    "stdout s2 = stdout s1 @ concat (map (\<lambda>ip. icon_diag env sz (world s1) (snd ip)) ips)"
    "world s2 = world s1" "length (objs s2) = length (objs s1)"
    "\<forall>j. j \<noteq> r \<longrightarrow> objs s2 ! j = objs s1 ! j"
    using Cons.IH [of s1] by blast
  have "icons_loop env r by bh sz sp sx (ip # ips) s = (Inr (), s2)"
    using s1(1) s2(1) by (simp add: ip bindE_def)
  then show ?case using s1 s2 by (auto simp: ip)
qed

lemma add_icons_to_blur_effect:
  "\<exists>s'. add_icons_to_blur env img icon_paths bh sz sp s = (Inr (length (objs s)), s')
     \<and> calls s' = calls s @
          map (\<lambda>ip. icon_call (length (objs s)) (height (objs s ! img) - bh) bh sz sp
                      ((width (objs s ! img)
                         - (int (length icon_paths) * sz + (int (length icon_paths) - 1) * sp)) div 2)
                      (fst ip))
              (filter (\<lambda>ip. icon_ok env sz (world s) (snd ip)) (enumerate 0 icon_paths))
     \<and> stdout s' = stdout s @ concat (map (\<lambda>ip. icon_diag env sz (world s) (snd ip)) (enumerate 0 icon_paths))
     \<and> world s' = world s
     \<and> length (objs s') = Suc (length (objs s))
     \<and> (\<forall>j. j < length (objs s) \<longrightarrow> objs s' ! j = objs s ! j)"
proof -
  let ?s0 = "s\<lparr>objs := objs s @ [objs s ! img]\<rparr>"
  let ?r = "length (objs s)"
  let ?by = "height (objs s ! img) - bh"
  let ?sx = "(width (objs s ! img)
               - (int (length icon_paths) * sz + (int (length icon_paths) - 1) * sp)) div 2"
  obtain s' where s': "icons_loop env ?r ?by bh sz sp ?sx (enumerate 0 icon_paths) ?s0 = (Inr (), s')"
    "calls s' = calls ?s0 @ map (\<lambda>ip. icon_call ?r ?by bh sz sp ?sx (fst ip))
                               (filter (\<lambda>ip. icon_ok env sz (world ?s0) (snd ip)) (enumerate 0 icon_paths))"
    "stdout s' = stdout ?s0 @ concat (map (\<lambda>ip. icon_diag env sz (world ?s0) (snd ip)) (enumerate 0 icon_paths))"
    "world s' = world ?s0" "length (objs s') = length (objs ?s0)"
    "\<forall>j. j \<noteq> ?r \<longrightarrow> objs s' ! j = objs ?s0 ! j"
    using icons_loop_effect [of env ?r ?by bh sz sp ?sx "enumerate 0 icon_paths" ?s0] by blast
  have "add_icons_to_blur env img icon_paths bh sz sp s = (Inr ?r, s')"
    using s'(1)
    by (simp add: add_icons_to_blur_def bindE_def get_image_def copy_def returnE_def
          image_size_def)
  then show ?thesis using s' by (auto simp: nth_append)
qed







subsection \<open>The bottom-blur stage: a band higher than the image\<close>

text \<open>
  C5. When the requested band height exceeds the image height, the stage behaves as
  for a band height equal to the image height: the cropped band is the whole image,
  the filter is applied to it, and every pixel of the result is a pixel of the
  filtered image.
\<close>

theorem apply_bottom_blur_clamped:
  assumes "height (objs s ! img) < blur_height"
    and "apply_bottom_blur env img blur_radius blur_height s = (Inr r, s')"
    and "im = objs s ! img"
  shows "apply_bottom_blur env img blur_radius blur_height s
           = apply_bottom_blur env img blur_radius (height im) s
       \<and> (\<exists>whole b.
            crop im (0, 0, width im, height im) = Inr whole
          \<and> width whole = width im \<and> height whole = height im
          \<and> (\<forall>x y. in_bounds im x y \<longrightarrow> pix whole x y = pix im x y)
          \<and> gaussian_blur env blur_radius whole = Inr b
          \<and> width (objs s' ! r) = width im \<and> height (objs s' ! r) = height im
          \<and> (\<forall>x y. in_bounds im x y \<longrightarrow> pix (objs s' ! r) x y = pix b x y))"
proof -
  have eq: "apply_bottom_blur env img blur_radius blur_height s
           = apply_bottom_blur env img blur_radius (height im) s"
    using assms(1,3) by (simp add: apply_bottom_blur_def prog_defs image_size_def)
  have rest: "\<exists>whole b.
            crop im (0, 0, width im, height im) = Inr whole
          \<and> width whole = width im \<and> height whole = height im
          \<and> (\<forall>x y. in_bounds im x y \<longrightarrow> pix whole x y = pix im x y)
          \<and> gaussian_blur env blur_radius whole = Inr b
          \<and> width (objs s' ! r) = width im \<and> height (objs s' ! r) = height im
          \<and> (\<forall>x y. in_bounds im x y \<longrightarrow> pix (objs s' ! r) x y = pix b x y)"
    using assms
    by (auto simp: apply_bottom_blur_def prog_defs crop_def paste_box_def image_size_def
          in_bounds_def Let_def nth_append
        split: sum.splits if_splits prod.splits cong: if_cong)
  show ?thesis using eq rest by blast
qed

theorem apply_bottom_blur_clamped_witness:
  "fst (apply_bottom_blur test_env 0 5 100 test_state) = Inr 1
   \<and> apply_bottom_blur test_env 0 5 100 test_state = apply_bottom_blur test_env 0 5 6 test_state
   \<and> pix (objs (snd (apply_bottom_blur test_env 0 5 100 test_state)) ! 1) 0 0 = 7
   \<and> pix (objs (snd (apply_bottom_blur test_env 0 5 100 test_state)) ! 1) 9 5 = 7"
proof -
  let ?res = "apply_bottom_blur test_env 0 5 100 test_state"
  have h: "height (objs test_state ! 0) < (100::int)"
    by (simp add: test_defs)
  have r: "fst ?res = Inr 1"
    by (simp add: apply_bottom_blur_def prog_defs crop_def paste_box_def image_size_def test_defs)
  then have e: "?res = (Inr 1, snd ?res)"
    by (simp add: prod_eq_iff)
  obtain whole b where wb:
    "?res = apply_bottom_blur test_env 0 5 (height (objs test_state ! 0)) test_state"
    "gaussian_blur test_env 5 whole = Inr b"
    "\<forall>x y. in_bounds (objs test_state ! 0) x y \<longrightarrow> pix (objs (snd ?res) ! 1) x y = pix b x y"
    using apply_bottom_blur_clamped [OF h e refl] by blast
  have b: "pix b x y = 7" for x y
    using wb(2) by (auto simp: test_defs)
  have "in_bounds (objs test_state ! 0) 0 0" "in_bounds (objs test_state ! 0) 9 5"
    by (simp_all add: in_bounds_def test_defs)
  then have "pix (objs (snd ?res) ! 1) 0 0 = 7" "pix (objs (snd ?res) ! 1) 9 5 = 7"
    using wb(3) b by auto
  moreover have "?res = apply_bottom_blur test_env 0 5 6 test_state"
    using wb(1) by (simp add: test_defs)
  ultimately show ?thesis using r by simp
qed

subsection \<open>The time-overlay stage\<close>

text \<open>
  A call of \<open>draw.text\<close> is recorded whether it raises or not; it prints nothing,
  writes no file and touches no object but the one it draws on.
\<close>

lemma draw_text_effect:
  assumes "draw_text env r pos t f c s = (res, s')"
  shows "calls s' = calls s @ [TextCall r pos t f c]
       \<and> stdout s' = stdout s \<and> world s' = world s
       \<and> length (objs s') = length (objs s)
       \<and> (\<forall>j. j \<noteq> r \<longrightarrow> objs s' ! j = objs s ! j)"
  using assms by (auto simp: draw_text_def Let_def split: sum.splits)

lemma draw_text_rendered:
  assumes "draw_text env r pos t f c s = (Inr u, s')" and "r < length (objs s)"
  shows "render_text env f t c pos (objs s ! r) = Inr (objs s' ! r)"
  using assms by (auto simp: draw_text_def Let_def split: sum.splits)

lemma outline_loop_effect:
  assumes "outline_loop env r x y t f c adjs s = (res, s')"
  shows "stdout s' = stdout s \<and> world s' = world s
       \<and> length (objs s') = length (objs s)
       \<and> (\<forall>j. j \<noteq> r \<longrightarrow> objs s' ! j = objs s ! j)
       \<and> (\<forall>u. res = Inr u \<longrightarrow>
            calls s' = calls s @ map (\<lambda>adj. TextCall r (x + fst adj, y + snd adj) t f c) adjs)"
  using assms
proof (induction adjs arbitrary: s)
  case Nil
  then show ?case by (auto simp: returnE_def)
next
  case (Cons adj adjs)
  obtain res1 s1 where d: "draw_text env r (x + fst adj, y + snd adj) t f c s = (res1, s1)"
    by (cases "draw_text env r (x + fst adj, y + snd adj) t f c s")
  note e1 = draw_text_effect [OF d]
  show ?case
  proof (cases res1)
    case (Inl e)
    then have "res = Inl e" "s' = s1"
      using Cons.prems d by (simp_all add: bindE_def)
    then show ?thesis using e1 by simp
  next
    case (Inr u)
    then have "outline_loop env r x y t f c adjs s1 = (res, s')"
      using Cons.prems d by (simp add: bindE_def)
    from Cons.IH [OF this] e1 show ?thesis by simp
  qed
qed


lemma add_time_to_blur_steps:
  assumes "add_time_to_blur env img time_text blur_height font_size padding vertical_offset s
             = (Inr r, s')"
  shows "\<exists>f b0 b1 b2 b3 ascent descent s1.
           truetype env ''font/YaHei.ttf'' font_size (world s) = Inr f
         \<and> textbbox env f time_text (0, 0) = Inr (b0, b1, b2, b3)
         \<and> getmetrics env f = (ascent, descent)
         \<and> outline_loop env img
              (width (objs s ! img) - (b2 - b0) - padding)
              (height (objs s ! img) - blur_height + blur_height div 2
                 - (ascent - (b3 - b1) div 2) + vertical_offset)
              time_text f (0, 0, 0)
              [(-1, -1), (0, -1), (1, -1), (-1, 0), (1, 0), (-1, 1), (0, 1), (1, 1)] s
              = (Inr (), s1)
         \<and> draw_text env img
              (width (objs s ! img) - (b2 - b0) - padding,
               height (objs s ! img) - blur_height + blur_height div 2
                 - (ascent - (b3 - b1) div 2) + vertical_offset)
              time_text f (255, 255, 255) s1 = (Inr (), s')
         \<and> r = img"
  using assms
  by (auto simp: add_time_to_blur_def bindE_def get_image_def load_font_def liftE_def
        returnE_def image_size_def Let_def
      simp del: outline_loop.simps
      split: sum.splits prod.splits)

lemma add_time_to_blur_effect:
  assumes "add_time_to_blur env img time_text blur_height font_size padding vertical_offset s
             = (Inr r, s')"
    and "truetype env ''font/YaHei.ttf'' font_size (world s) = Inr f"
    and "textbbox env f time_text (0, 0) = Inr (b0, b1, b2, b3)"
    and "getmetrics env f = (ascent, descent)"
    and "x = width (objs s ! img) - (b2 - b0) - padding"
    and "y = height (objs s ! img) - blur_height + blur_height div 2
               - (ascent - (b3 - b1) div 2) + vertical_offset"
  shows "r = img
       \<and> calls s' = calls s @
           [TextCall img (x - 1, y - 1) time_text f (0, 0, 0),
            TextCall img (x, y - 1) time_text f (0, 0, 0),
            TextCall img (x + 1, y - 1) time_text f (0, 0, 0),
            TextCall img (x - 1, y) time_text f (0, 0, 0),
            TextCall img (x + 1, y) time_text f (0, 0, 0),
            TextCall img (x - 1, y + 1) time_text f (0, 0, 0),
            TextCall img (x, y + 1) time_text f (0, 0, 0),
            TextCall img (x + 1, y + 1) time_text f (0, 0, 0),
            TextCall img (x, y) time_text f (255, 255, 255)]
       \<and> stdout s' = stdout s \<and> world s' = world s
       \<and> length (objs s') = length (objs s)
       \<and> (\<forall>j. j \<noteq> img \<longrightarrow> objs s' ! j = objs s ! j)
       \<and> (img < length (objs s) \<longrightarrow>
            (\<exists>prev. render_text env f time_text (255, 255, 255) (x, y) prev
                      = Inr (objs s' ! img)))"
proof -
  obtain s1 where
    loop: "outline_loop env img x y time_text f (0, 0, 0)
              [(-1, -1), (0, -1), (1, -1), (-1, 0), (1, 0), (-1, 1), (0, 1), (1, 1)] s
              = (Inr (), s1)"
    and last: "draw_text env img (x, y) time_text f (255, 255, 255) s1 = (Inr (), s')"
    and r: "r = img"
    using add_time_to_blur_steps [OF assms(1)] assms(2-6) by auto
  note l = outline_loop_effect [OF loop]
  note d = draw_text_effect [OF last]
  have rendered: "img < length (objs s) \<Longrightarrow>
      render_text env f time_text (255, 255, 255) (x, y) (objs s1 ! img) = Inr (objs s' ! img)"
    using draw_text_rendered [OF last] l by simp
  show ?thesis
    using r l d rendered by auto
qed


text \<open>
  The stage returns, and returns the object it was given, whenever the font loads,
  the text can be measured and the rasteriser does not raise.
\<close>

lemma draw_text_returns:
  assumes "\<And>im. \<exists>im'. render_text env f t c pos im = Inr im'"
  shows "\<exists>s'. draw_text env r pos t f c s = (Inr (), s')"
proof -
  obtain im' where "render_text env f t c pos (objs s ! r) = Inr im'"
    using assms by blast
  then show ?thesis by (simp add: draw_text_def Let_def)
qed

lemma outline_loop_returns:
  assumes "\<And>c pos im. \<exists>im'. render_text env f t c pos im = Inr im'"
  shows "\<exists>s'. outline_loop env r x y t f c adjs s = (Inr (), s')"
proof (induction adjs arbitrary: s)
  case Nil
  then show ?case by (simp add: returnE_def)
next
  case (Cons adj adjs)
  obtain s1 where "draw_text env r (x + fst adj, y + snd adj) t f c s = (Inr (), s1)"
    using draw_text_returns [of env f t c "(x + fst adj, y + snd adj)" r s] assms
    by blast
  then show ?case using Cons.IH [of s1] by (simp add: bindE_def)
qed

lemma add_time_to_blur_returns:
  assumes "truetype env ''font/YaHei.ttf'' font_size (world s) = Inr f"
    and "textbbox env f time_text (0, 0) = Inr bbox"
    and "\<And>c pos im. \<exists>im'. render_text env f time_text c pos im = Inr im'"
  shows "\<exists>s'. add_time_to_blur env img time_text blur_height font_size padding vertical_offset s
                = (Inr img, s')"
proof -
  obtain b0 b1 b2 b3 where bbox: "bbox = (b0, b1, b2, b3)"
    by (cases bbox) auto
  obtain ascent descent where m: "getmetrics env f = (ascent, descent)"
    by (cases "getmetrics env f")
  let ?x = "width (objs s ! img) - (b2 - b0) - padding"
  let ?y = "height (objs s ! img) - blur_height + blur_height div 2
               - (ascent - (b3 - b1) div 2) + vertical_offset"
  obtain s1 where l: "outline_loop env img ?x ?y time_text f (0, 0, 0)
      [(-1, -1), (0, -1), (1, -1), (-1, 0), (1, 0), (-1, 1), (0, 1), (1, 1)] s = (Inr (), s1)"
    using outline_loop_returns [OF assms(3)] by blast
  obtain s2 where d: "draw_text env img (?x, ?y) time_text f (255, 255, 255) s1 = (Inr (), s2)"
    using draw_text_returns [of env f time_text "(255, 255, 255)" "(?x, ?y)" img s1] assms(3)
    by blast
  have "add_time_to_blur env img time_text blur_height font_size padding vertical_offset s
                = (Inr img, s2)"
    using assms(1,2) bbox m l d
    by (simp add: add_time_to_blur_def bindE_def get_image_def load_font_def liftE_def
          returnE_def image_size_def Let_def del: outline_loop.simps)
  then show ?thesis by blast
qed





subsection \<open>Copies and mutation\<close>

text \<open>
  The blur stage prints nothing, writes no file and makes no drawing call; when it
  returns, its result is a new object and the old objects are as they were.
\<close>

lemma apply_bottom_blur_frame:
  assumes "apply_bottom_blur env img blur_radius blur_height s = (res, s')"
  shows "stdout s' = stdout s \<and> world s' = world s \<and> calls s' = calls s
       \<and> (\<forall>r. res = Inr r \<longrightarrow>
             r = length (objs s) \<and> length (objs s') = Suc (length (objs s))
           \<and> take (length (objs s)) (objs s') = objs s)"
  using assms
  by (auto simp: apply_bottom_blur_def prog_defs Let_def image_size_def
      split: sum.splits prod.splits if_splits)

text \<open>
  C7. With an empty icon list the orchestrator skips the icon stage: the object given
  to the time stage is the very object the blur stage returned, so
  \<open>process_image\<close> is the pipeline without the icon stage. (Called on an empty list
  all the same, the icon stage returns a copy with the size and pixels of its input.)
\<close>

theorem icon_stage_empty_list:
  "icon_step env blurred_img [] blur_height icon_size spacing s = (Inr blurred_img, s)
   \<and> add_icons_to_blur env img [] blur_height icon_size spacing s
       = (Inr (length (objs s)), s\<lparr>objs := objs s @ [objs s ! img]\<rparr>)
   \<and> process_image env input_path output_path [] time_text
         blur_radius blur_height icon_size spacing font_size
       = try_except
           (bindE (open_image env input_path) (\<lambda>img.
            bindE (apply_bottom_blur env img blur_radius blur_height) (\<lambda>blurred_img.
            bindE (add_time_to_blur env blurred_img time_text blur_height font_size 50 0)
              (\<lambda>final_img.
            bindE (save env final_img output_path) (\<lambda>_.
            print (ImageSaved output_path))))))
           (\<lambda>e. print (ProcessFailed e))"
proof -
  have a: "icon_step env b [] blur_height icon_size spacing = returnE b" for b
    by (simp add: icon_step_def)
  have b: "bindE (returnE v) f = f v" for v :: ref and f :: "ref \<Rightarrow> (('a, 'b) state, 'c) prog"
    by (rule ext) (simp add: bindE_def returnE_def)
  have c: "add_icons_to_blur env img [] blur_height icon_size spacing s
       = (Inr (length (objs s)), s\<lparr>objs := objs s @ [objs s ! img]\<rparr>)"
    by (simp add: add_icons_to_blur_def prog_defs image_size_def)
  show ?thesis
    unfolding process_image_def a b using c by (simp add: returnE_def)
qed


theorem icon_stage_empty_list_witness:
  "icon_step test_env 0 [] 2 2 1 test_state = (Inr 0, test_state)
   \<and> fst (add_icons_to_blur test_env 0 [] 2 2 1 test_state) = Inr 1
   \<and> objs (snd (add_icons_to_blur test_env 0 [] 2 2 1 test_state)) ! 1 = objs test_state ! 0"
  using icon_stage_empty_list [of test_env 0 2 2 1 test_state 0]
  by (simp add: test_state_def)

text \<open>
  C8. For an existing image object \<open>img\<close>: the blur stage and the icon stage return
  a new object (one more object exists afterwards, and its reference is not one of
  the old ones) and leave every old object, \<open>img\<close> among them, unchanged; the time
  stage creates no object, returns \<open>img\<close> itself, and the object \<open>img\<close> then holds
  what the last white drawing produced, all other objects being unchanged.
\<close>

theorem stages_copy_or_mutate:
  assumes "img < length (objs s)"
  shows "(\<forall>r s'. apply_bottom_blur env img blur_radius blur_height s = (Inr r, s') \<longrightarrow>
            r = length (objs s) \<and> length (objs s') = Suc (length (objs s))
          \<and> take (length (objs s)) (objs s') = objs s
          \<and> objs s' ! img = objs s ! img)
       \<and> (\<forall>res s'. add_icons_to_blur env img icon_paths blur_height icon_size spacing s
                      = (res, s') \<longrightarrow>
            res = Inr (length (objs s)) \<and> length (objs s') = Suc (length (objs s))
          \<and> take (length (objs s)) (objs s') = objs s
          \<and> objs s' ! img = objs s ! img)
       \<and> (\<forall>r s'. add_time_to_blur env img time_text blur_height font_size padding
                     vertical_offset s = (Inr r, s') \<longrightarrow>
            r = img \<and> length (objs s') = length (objs s)
          \<and> (\<forall>j. j \<noteq> img \<longrightarrow> objs s' ! j = objs s ! j)
          \<and> (\<exists>f pos prev. render_text env f time_text (255, 255, 255) pos prev
                              = Inr (objs s' ! img)))"
proof (intro conjI allI impI)
  fix r s'
  assume "apply_bottom_blur env img blur_radius blur_height s = (Inr r, s')"
  from apply_bottom_blur_frame [OF this]
  have *: "r = length (objs s)" "length (objs s') = Suc (length (objs s))"
    "take (length (objs s)) (objs s') = objs s"
    by simp_all
  show "r = length (objs s)" "length (objs s') = Suc (length (objs s))"
    "take (length (objs s)) (objs s') = objs s"
    by (rule *)+
  show "objs s' ! img = objs s ! img"
    using assms *(3) by (metis nth_take)
next
  fix res s'
  assume "add_icons_to_blur env img icon_paths blur_height icon_size spacing s = (res, s')"
  with add_icons_to_blur_effect [of env img icon_paths blur_height icon_size spacing s]
  have *: "res = Inr (length (objs s))" "length (objs s') = Suc (length (objs s))"
    "\<forall>j. j < length (objs s) \<longrightarrow> objs s' ! j = objs s ! j"
    by auto
  show "res = Inr (length (objs s))" "length (objs s') = Suc (length (objs s))"
    by (rule *)+
  show "take (length (objs s)) (objs s') = objs s"
    using *(2,3) by (simp add: list_eq_iff_nth_eq)
  show "objs s' ! img = objs s ! img"
    using assms *(3) by simp
next
  fix r s'
  assume run: "add_time_to_blur env img time_text blur_height font_size padding
                 vertical_offset s = (Inr r, s')"
  obtain f b0 b1 b2 b3 ascent descent where
    "truetype env ''font/YaHei.ttf'' font_size (world s) = Inr f"
    "textbbox env f time_text (0, 0) = Inr (b0, b1, b2, b3)"
    "getmetrics env f = (ascent, descent)"
    using add_time_to_blur_steps [OF run] by blast
  note e = add_time_to_blur_effect [OF run this refl refl]
  show "r = img" "length (objs s') = length (objs s)"
    using e by simp_all
  show "\<exists>f pos prev. render_text env f time_text (255, 255, 255) pos prev
                              = Inr (objs s' ! img)"
    using e assms by blast
  fix j
  assume "j \<noteq> img"
  then show "objs s' ! j = objs s ! j"
    using e by simp
qed


theorem stages_copy_or_mutate_witness:
  "fst (apply_bottom_blur test_env 0 5 2 test_state) = Inr 1
   \<and> objs (snd (apply_bottom_blur test_env 0 5 2 test_state)) ! 0 = objs test_state ! 0
   \<and> fst (add_icons_to_blur test_env 0 [''icons/a.png''] 2 2 1 test_state) = Inr 1
   \<and> objs (snd (add_icons_to_blur test_env 0 [''icons/a.png''] 2 2 1 test_state)) ! 0
       = objs test_state ! 0
   \<and> fst (add_time_to_blur test_env 0 ''13:14'' 2 80 1 0 test_state) = Inr 0
   \<and> length (objs (snd (add_time_to_blur test_env 0 ''13:14'' 2 80 1 0 test_state))) = 1
   \<and> pix (objs (snd (add_time_to_blur test_env 0 ''13:14'' 2 80 1 0 test_state)) ! 0) 7 3 = 255
   \<and> pix (objs test_state ! 0) 7 3 = 37"
proof -
  let ?blur = "apply_bottom_blur test_env 0 5 2 test_state"
  let ?icons = "add_icons_to_blur test_env 0 [''icons/a.png''] 2 2 1 test_state"
  let ?time = "add_time_to_blur test_env 0 ''13:14'' 2 80 1 0 test_state"
  let ?f = "Font ''font/YaHei.ttf'' 80"
  have h: "0 < length (objs test_state)"
    by (simp add: test_state_def)
  note T = stages_copy_or_mutate [OF h, where env = test_env and blur_radius = 5
      and blur_height = 2 and icon_paths = "[''icons/a.png'']" and icon_size = 2
      and spacing = 1 and time_text = "''13:14''" and font_size = 80 and padding = 1
      and vertical_offset = 0]
  have "fst ?blur = Inr 1"
    by (simp add: apply_bottom_blur_def prog_defs crop_def paste_box_def image_size_def test_defs)
  then have e1: "?blur = (Inr 1, snd ?blur)"
    by (simp add: prod_eq_iff)
  have e2: "?icons = (fst ?icons, snd ?icons)"
    by simp
  have f: "truetype test_env ''font/YaHei.ttf'' 80 (world test_state) = Inr ?f"
    by (simp add: test_defs)
  have b: "textbbox test_env ?f ''13:14'' (0, 0) = Inr (1, 2, 3, 4)"
    by (simp add: test_defs)
  have m: "getmetrics test_env ?f = (3, 1)"
    by (simp add: test_defs)
  have t: "\<exists>im'. render_text test_env ?f ''13:14'' c pos im = Inr im'" for c pos im
    by (simp add: test_defs)
  have e3: "?time = (Inr 0, snd ?time)"
    using add_time_to_blur_returns [OF f b t, of 0 2 1 0] by auto
  have w: "width (objs test_state ! 0) = 10" "height (objs test_state ! 0) = 6"
    "length (objs test_state) = 1" "pix (objs test_state ! 0) 7 3 = 37"
    by (simp_all add: test_state_def test_image_def)
  obtain prev where "render_text test_env ?f ''13:14'' (255, 255, 255) (7, 3) prev
      = Inr (objs (snd ?time) ! 0)"
    using add_time_to_blur_effect [OF e3 f b m refl refl] w by auto
  moreover have "render_text test_env g t fill pos im = Inr im' \<Longrightarrow>
      pix im' (fst pos) (snd pos) = nat (fst fill)" for g t fill pos im im'
    by (auto simp: test_env_def)
  ultimately have p: "pix (objs (snd ?time) ! 0) 7 3 = 255"
    by fastforce
  have c1: "fst ?blur = Inr 1 \<and> objs (snd ?blur) ! 0 = objs test_state ! 0"
    using T e1 w(3) by (metis fst_conv)
  have c2: "fst ?icons = Inr 1 \<and> objs (snd ?icons) ! 0 = objs test_state ! 0"
    using T e2 w(3) by metis
  have c3: "fst ?time = Inr 0 \<and> length (objs (snd ?time)) = 1"
    using T e3 w(3) by (metis fst_conv)
  show ?thesis
    using c1 c2 c3 p w(4) by simp
qed

subsection \<open>The orchestrator\<close>

























text \<open>
  C10. The icon directory is listed before any image is processed and outside any
  handler: when the input path exists and listing the icon directory raises, \<open>main\<close>
  ends with that exception and the state is untouched (no image opened, no file
  written, nothing printed).
\<close>

theorem main_icon_directory_missing:
  assumes "path_exists env (arg_input a) (world s)"
    and "listdir env (arg_icons a) (world s) = Inl e"
  shows "main env a s = (Inl e, s)"
  using assms by (simp add: main_def Let_def bindE_def liftE_def)

theorem main_icon_directory_missing_witness:
  "path_exists test_env (arg_input (test_args\<lparr>arg_icons := ''nowhere''\<rparr>)) (world test_state)
   \<and> main test_env (test_args\<lparr>arg_icons := ''nowhere''\<rparr>) test_state
       = (Inl (OSError ''No such file or directory''), test_state)"
proof -
  let ?a = "test_args\<lparr>arg_icons := ''nowhere''\<rparr>"
  have x: "path_exists test_env (arg_input ?a) (world test_state)"
    by (simp add: test_env_def test_args_def)
  have l: "listdir test_env (arg_icons ?a) (world test_state)
             = Inl (OSError ''No such file or directory'')"
    by (simp add: test_env_def test_args_def)
  show ?thesis
    using x main_icon_directory_missing [OF x l] by simp
qed

end
